theory Spec2Isabelle
  imports Complex_Main "HOL-Library.Word"
begin

section \<open>VibeFlow: event classification, flow score and nudge counter\<close>

text \<open>
  The repository holds two versions of the extension. The file \<^verbatim>\<open>src/README.md\<close>
  carries the \<^emph>\<open>windowed\<close> version (an \<^verbatim>\<open>activity\<close> array, keystroke and rhythm terms,
  low threshold 45, jitter \<^verbatim>\<open>Math.floor(Math.random() * 6 - 3)\<close>); its definitions have
  the suffix \<open>_w\<close>. The file \<^verbatim>\<open>src/extension.js\<close> carries the \<^emph>\<open>simplified\<close> version
  (no activity array, low threshold 40, jitter \<^verbatim>\<open>Math.floor(Math.random() * 10 - 5)\<close>);
  its definitions have the suffix \<open>_s\<close>.

  JavaScript numbers are modelled exactly: counters as \<open>nat\<close>, millisecond timestamps
  as \<open>int\<close>, and every fractional intermediate value as \<open>rat\<close>. Each call of
  \<^verbatim>\<open>Date.now()\<close> and of \<^verbatim>\<open>Math.random()\<close> is a parameter of the function that makes it.
\<close>

subsection \<open>Data\<close>

text \<open>A JavaScript string is a sequence of UTF-16 code units; \<^verbatim>\<open>.length\<close> counts them.\<close>

type_synonym code_unit = "16 word"
type_synonym jsstring = "code_unit list"

definition newline :: code_unit where
  "newline = 10"

text \<open>One element of \<^verbatim>\<open>e.contentChanges\<close>; a field that is absent is \<open>None\<close>.\<close>

record change =
  change_text :: "jsstring option"
  rangeLength :: "nat option"

record metrics =
  lastChangeTs :: int
  totalInsertions :: nat
  totalDeletions :: nat
  aiInsertions :: nat
  aiRejections :: nat
  undoCount :: nat
  consecutiveLow :: nat

text \<open>An element \<^verbatim>\<open>{ ts, size }\<close> of the \<^verbatim>\<open>activity\<close> array.\<close>

record activity_entry =
  a_ts :: int
  a_size :: nat

text \<open>An element \<^verbatim>\<open>{ ts, flow }\<close> of the \<^verbatim>\<open>history\<close> array.\<close>

record flow_sample =
  h_ts :: int
  h_flow :: int

text \<open>The objects handed to \<^verbatim>\<open>logEvent\<close>, one constructor for each shape.\<close>

datatype event_body =
    Nudge string
  | AiAccept nat
  | Insert nat
  | Delete nat
  | AiReplace nat nat
  | Replace nat nat
  | AiReject
  | AssistToggle bool

fun etype :: "event_body \<Rightarrow> string" where
  "etype (Nudge a) = ''nudge''"
| "etype (AiAccept n) = ''ai.accept''"
| "etype (Insert n) = ''insert''"
| "etype (Delete n) = ''delete''"
| "etype (AiReplace i r) = ''ai.replace''"
| "etype (Replace i r) = ''replace''"
| "etype AiReject = ''ai.reject''"
| "etype (AssistToggle b) = ''assist.toggle''"

record logged_event =
  e_body :: event_body
  e_ts :: int

text \<open>A call of \<^verbatim>\<open>showInformationMessage\<close> with items: the message and the choices offered.\<close>

record prompt =
  p_message :: string
  p_items :: "string list"

text \<open>
  The variables that \<^verbatim>\<open>activate\<close> closes over. \<open>statusFlow\<close> is the score shown in the
  status bar (\<open>None\<close> while it still reads "initializing..."), \<open>statusColor\<close> its colour
  (\<open>None\<close> for \<^verbatim>\<open>undefined\<close>). The simplified version has no \<^verbatim>\<open>activity\<close> array and leaves
  that field alone.
\<close>

record ext_state =
  metrics :: metrics
  activity :: "activity_entry list"
  history :: "flow_sample list"
  events :: "logged_event list"
  assistMode :: bool
  lastUpdate :: int
  statusFlow :: "int option"
  statusColor :: "string option"
  prompts :: "prompt list"

subsection \<open>The flow score, windowed version\<close>

text \<open>\<^verbatim>\<open>activity.filter(a => now - a.ts < windowSize)\<close> with \<^verbatim>\<open>windowSize = 60000\<close>.\<close>

definition recent_w :: "int \<Rightarrow> activity_entry list \<Rightarrow> activity_entry list" where
  "recent_w now act = filter (\<lambda>a. now - a_ts a < 60000) act"

text \<open>
  The \<^verbatim>\<open>forEach\<close> loop that accumulates \<^verbatim>\<open>keystrokeScore\<close>, then the cap at 50.
  \<^verbatim>\<open>a.size || 1\<close> replaces a size of 0 by 1.
\<close>

definition keystrokeScore :: "int \<Rightarrow> activity_entry list \<Rightarrow> rat" where
  "keystrokeScore now recent =
     min (foldl (\<lambda>k a.
            let ageSec = of_int (now - a_ts a) / 1000;
                weight = max 0 (1 - ageSec / 60)
            in k + weight * of_nat (min (if a_size a = 0 then 1 else a_size a) 20))
          0 recent)
         50"

text \<open>\<^verbatim>\<open>recent.map((a, i) => (i === 0 ? 0 : a.ts - recent[i - 1].ts))\<close>.\<close>

definition gaps :: "activity_entry list \<Rightarrow> int list" where
  "gaps recent =
     map (\<lambda>i. if i = 0 then 0 else a_ts (recent ! i) - a_ts (recent ! (i - 1)))
       [0..<length recent]"

definition avgGap :: "activity_entry list \<Rightarrow> rat" where
  "avgGap recent =
     (if length (gaps recent) \<noteq> 0
      then of_int (foldl (+) 0 (gaps recent)) / of_nat (length (gaps recent))
      else 0)"

definition rhythmBonus :: "activity_entry list \<Rightarrow> rat" where
  "rhythmBonus recent =
     (if avgGap recent < 10000 then max 0 (20 - avgGap recent / 1000) else 0)"

text \<open>
  \<^verbatim>\<open>recent.at(-1)?.ts || metrics.lastChangeTs || 0\<close>: a timestamp of 0 is falsy and
  falls through to the next operand.
\<close>

definition lastActivity :: "activity_entry list \<Rightarrow> metrics \<Rightarrow> int" where
  "lastActivity recent m =
     (let lastTs = (case rev recent of [] \<Rightarrow> 0 | a # _ \<Rightarrow> a_ts a)
      in if lastTs \<noteq> 0 then lastTs
         else if lastChangeTs m \<noteq> 0 then lastChangeTs m
         else 0)"

definition idleDecay :: "int \<Rightarrow> activity_entry list \<Rightarrow> metrics \<Rightarrow> rat" where
  "idleDecay now recent m =
     (let idleTime = now - lastActivity recent m
      in min 50 (of_int idleTime / 1000))"

definition metricScore :: "metrics \<Rightarrow> rat" where
  "metricScore m =
     (let total = max 1 (totalInsertions m);
          aiAcceptRate = min 1 (of_nat (aiInsertions m) / of_nat total);
          undoPenalty = min 1 (of_nat (undoCount m) / of_nat total)
      in 30 + aiAcceptRate * 30 - undoPenalty * 10)"

text \<open>\<^verbatim>\<open>Math.floor(Math.random() * 6 - 3)\<close>, with \<open>u\<close> the value of \<^verbatim>\<open>Math.random()\<close>.\<close>

definition jitter_w :: "rat \<Rightarrow> int" where
  "jitter_w u = \<lfloor>u * 6 - 3\<rfloor>"

text \<open>The sum \<^verbatim>\<open>rawFlow\<close> before the jitter is added.\<close>

definition rawFlow :: "int \<Rightarrow> activity_entry list \<Rightarrow> metrics \<Rightarrow> rat" where
  "rawFlow now act m =
     (let recent = recent_w now act
      in keystrokeScore now recent + rhythmBonus recent - idleDecay now recent m
         + metricScore m)"

text \<open>
  \<^verbatim>\<open>Math.round\<close> rounds a half towards plus infinity, as \<^const>\<open>round\<close> does
  (\<open>round x = \<lfloor>x + 1/2\<rfloor>\<close>).
\<close>

definition computeFlow_w :: "int \<Rightarrow> rat \<Rightarrow> activity_entry list \<Rightarrow> metrics \<Rightarrow> int" where
  "computeFlow_w now u act m =
     max 0 (min 100 (round (rawFlow now act m + of_int (jitter_w u))))"

subsection \<open>The flow score, simplified version\<close>

definition jitter_s :: "rat \<Rightarrow> int" where
  "jitter_s u = \<lfloor>u * 10 - 5\<rfloor>"

definition raw_s :: "int \<Rightarrow> metrics \<Rightarrow> rat" where
  "raw_s now m =
     (let total = max 1 (totalInsertions m);
          acceptRate = min 1 (of_nat (aiInsertions m) / of_nat total);
          rejectPenalty =
            min 1 (of_nat (aiRejections m) / of_nat (aiInsertions m + aiRejections m + 1));
          undoRate = min 1 (of_nat (undoCount m) / of_nat total);
          idleSec = of_int (now - lastChangeTs m) / 1000;
          idleFactor = min 1 (idleSec / 300)
      in 30 + acceptRate * 50 - undoRate * 10 - idleFactor * 10 - rejectPenalty * 5)"

definition computeFlow_s :: "int \<Rightarrow> rat \<Rightarrow> metrics \<Rightarrow> int" where
  "computeFlow_s now u m = max 0 (min 100 (round (raw_s now m + of_int (jitter_s u))))"

subsection \<open>Logging and the edit classifier\<close>

text \<open>
  \<^verbatim>\<open>logEvent(obj)\<close>: stamp the object with \<^verbatim>\<open>Date.now()\<close> (the parameter \<open>t\<close>) and push
  it on \<^verbatim>\<open>events\<close>.
\<close>

definition logEvent :: "int \<Rightarrow> event_body \<Rightarrow> ext_state \<Rightarrow> ext_state" where
  "logEvent t obj st = st\<lparr>events := events st @ [\<lparr>e_body = obj, e_ts = t\<rparr>]\<rparr>"

text \<open>\<^verbatim>\<open>change.text?.length || 0\<close> and \<^verbatim>\<open>change.rangeLength || 0\<close>.\<close>

definition inserted :: "change \<Rightarrow> nat" where
  "inserted c = (case change_text c of None \<Rightarrow> 0 | Some s \<Rightarrow> length s)"

definition removed :: "change \<Rightarrow> nat" where
  "removed c = (case rangeLength c of None \<Rightarrow> 0 | Some n \<Rightarrow> n)"

text \<open>\<^verbatim>\<open>change.text.includes("\n")\<close>; an absent text has no newline.\<close>

definition includes_newline :: "change \<Rightarrow> bool" where
  "includes_newline c = (case change_text c of None \<Rightarrow> False | Some s \<Rightarrow> newline \<in> set s)"

text \<open>
  The three-way \<^verbatim>\<open>if\<close> chain on \<^verbatim>\<open>inserted\<close> and \<^verbatim>\<open>removed\<close>, the same in both
  versions. \<open>t\<close> is the clock reading inside \<^verbatim>\<open>logEvent\<close>.
\<close>

definition classify :: "int \<Rightarrow> change \<Rightarrow> ext_state \<Rightarrow> ext_state" where
  "classify t c st =
     (let m = metrics st in
      if inserted c > 0 \<and> removed c = 0 then
        (let m1 = m\<lparr>totalInsertions := totalInsertions m + inserted c\<rparr>
         in if inserted c > 40 \<or> includes_newline c
            then logEvent t (AiAccept (inserted c))
                   (st\<lparr>metrics := m1\<lparr>aiInsertions := aiInsertions m1 + 1\<rparr>\<rparr>)
            else logEvent t (Insert (inserted c)) (st\<lparr>metrics := m1\<rparr>))
      else if removed c > 0 \<and> inserted c = 0 then
        logEvent t (Delete (removed c))
          (st\<lparr>metrics := m\<lparr>totalDeletions := totalDeletions m + removed c,
                            undoCount := undoCount m + 1\<rparr>\<rparr>)
      else if removed c > 0 \<and> inserted c > 0 then
        (let m1 = m\<lparr>totalInsertions := totalInsertions m + inserted c,
                     totalDeletions := totalDeletions m + removed c\<rparr>
         in if inserted c > 40 \<or> includes_newline c
            then logEvent t (AiReplace (inserted c) (removed c))
                   (st\<lparr>metrics := m1\<lparr>aiInsertions := aiInsertions m1 + 1\<rparr>\<rparr>)
            else logEvent t (Replace (inserted c) (removed c)) (st\<lparr>metrics := m1\<rparr>))
      else st)"

text \<open>
  The first two statements of the windowed loop body: push an activity entry when
  \<^verbatim>\<open>inserted > 0\<close>, then shift entries older than five minutes off the front.
\<close>

definition track_activity :: "int \<Rightarrow> change \<Rightarrow> activity_entry list \<Rightarrow> activity_entry list" where
  "track_activity now c act =
     (let act1 = (if inserted c > 0 then act @ [\<lparr>a_ts = now, a_size = inserted c\<rparr>] else act);
          cutoff = now - 5 * 60 * 1000
      in dropWhile (\<lambda>a. a_ts a < cutoff) act1)"

text \<open>One iteration of \<^verbatim>\<open>for (const change of e.contentChanges)\<close>, windowed and simplified.\<close>

definition contentChange_w :: "int \<Rightarrow> int \<Rightarrow> change \<Rightarrow> ext_state \<Rightarrow> ext_state" where
  "contentChange_w now t c st =
     classify t c (st\<lparr>activity := track_activity now c (activity st)\<rparr>)"

definition contentChange_s :: "int \<Rightarrow> change \<Rightarrow> ext_state \<Rightarrow> ext_state" where
  "contentChange_s t c st = classify t c st"

subsection \<open>The status update and the nudge counter\<close>

definition nudgePrompt :: prompt where
  "nudgePrompt =
     \<lparr>p_message = ''VibeFlow: low flow detected. Try a short break or request a hint.'',
      p_items = [''Take Break'', ''Request Hint'', ''Ignore'']\<rparr>"

text \<open>\<^verbatim>\<open>history.push({ ts: now, flow }); if (history.length > 20000) history.shift();\<close>\<close>

definition pushHistory :: "flow_sample \<Rightarrow> flow_sample list \<Rightarrow> flow_sample list" where
  "pushHistory x h = (let h1 = h @ [x] in if length h1 > 20000 then tl h1 else h1)"

text \<open>The colour branch; \<open>mid\<close> is 45 in the windowed version and 40 in the simplified one.\<close>

definition colourStep :: "int \<Rightarrow> int \<Rightarrow> ext_state \<Rightarrow> ext_state" where
  "colourStep mid flow st =
     (if flow \<ge> 70 then
        st\<lparr>statusColor := None, metrics := (metrics st)\<lparr>consecutiveLow := 0\<rparr>\<rparr>
      else if flow \<ge> mid then
        st\<lparr>statusColor := Some ''#b36b00'', metrics := (metrics st)\<lparr>consecutiveLow := 0\<rparr>\<rparr>
      else
        st\<lparr>statusColor := Some ''#a80000'',
           metrics := (metrics st)\<lparr>consecutiveLow := consecutiveLow (metrics st) + 1\<rparr>\<rparr>)"

text \<open>
  \<^verbatim>\<open>if (assistMode && metrics.consecutiveLow >= 5)\<close>: reset the counter and show the
  prompt. The promise's \<^verbatim>\<open>then\<close> callback runs later and is \<open>nudgeChoice\<close> below.
\<close>

definition nudgeStep :: "ext_state \<Rightarrow> ext_state" where
  "nudgeStep st =
     (if assistMode st \<and> consecutiveLow (metrics st) \<ge> 5
      then st\<lparr>metrics := (metrics st)\<lparr>consecutiveLow := 0\<rparr>,
              prompts := prompts st @ [nudgePrompt]\<rparr>
      else st)"

definition historyStep :: "int \<Rightarrow> int \<Rightarrow> ext_state \<Rightarrow> ext_state" where
  "historyStep now flow st =
     st\<lparr>history := pushHistory \<lparr>h_ts = now, h_flow = flow\<rparr> (history st)\<rparr>"

text \<open>
  The body of \<^verbatim>\<open>updateStatus\<close> once \<^verbatim>\<open>computeFlow()\<close> has returned \<open>flow\<close>. The windowed
  version checks the nudge before it pushes the history, the simplified one after.
\<close>

definition statusTick_w :: "int \<Rightarrow> int \<Rightarrow> ext_state \<Rightarrow> ext_state" where
  "statusTick_w now flow st =
     historyStep now flow (nudgeStep (colourStep 45 flow (st\<lparr>statusFlow := Some flow\<rparr>)))"

definition statusTick_s :: "int \<Rightarrow> int \<Rightarrow> ext_state \<Rightarrow> ext_state" where
  "statusTick_s now flow st =
     nudgeStep (historyStep now flow (colourStep 40 flow (st\<lparr>statusFlow := Some flow\<rparr>)))"

text \<open>
  \<^verbatim>\<open>updateStatus()\<close>. \<open>now\<close> is its own \<^verbatim>\<open>Date.now()\<close>, \<open>tf\<close> the one inside
  \<^verbatim>\<open>computeFlow\<close>, \<open>u\<close> the value of \<^verbatim>\<open>Math.random()\<close>.
\<close>

definition updateStatus_w :: "int \<Rightarrow> int \<Rightarrow> rat \<Rightarrow> ext_state \<Rightarrow> ext_state" where
  "updateStatus_w now tf u st =
     (if now - lastUpdate st < 1000 then st
      else statusTick_w now (computeFlow_w tf u (activity st) (metrics st))
             (st\<lparr>lastUpdate := now\<rparr>))"

definition updateStatus_s :: "int \<Rightarrow> int \<Rightarrow> rat \<Rightarrow> ext_state \<Rightarrow> ext_state" where
  "updateStatus_s now tf u st =
     (if now - lastUpdate st < 1000 then st
      else statusTick_s now (computeFlow_s tf u (metrics st)) (st\<lparr>lastUpdate := now\<rparr>))"

text \<open>The \<^verbatim>\<open>then\<close> callback of the nudge prompt; \<open>None\<close> is a dismissed prompt.\<close>

definition nudgeChoice :: "int \<Rightarrow> string option \<Rightarrow> ext_state \<Rightarrow> ext_state" where
  "nudgeChoice t choice st =
     (if choice = Some ''Take Break'' then logEvent t (Nudge ''break'') st
      else if choice = Some ''Request Hint'' then logEvent t (Nudge ''hint'') st
      else logEvent t (Nudge ''ignored'') st)"

subsection \<open>The handlers\<close>

text \<open>
  \<^verbatim>\<open>onDidChangeTextDocument\<close>. Each sub-change comes with the clock reading of its
  \<^verbatim>\<open>logEvent\<close> call. The windowed version reads the clock once (\<open>now\<close>) for
  \<^verbatim>\<open>lastChangeTs\<close> and the activity entries.
\<close>

definition onDidChangeTextDocument_w ::
  "int \<Rightarrow> (change \<times> int) list \<Rightarrow> int \<Rightarrow> int \<Rightarrow> rat \<Rightarrow> ext_state \<Rightarrow> ext_state" where
  "onDidChangeTextDocument_w now cs tu tf u st =
     updateStatus_w tu tf u
       (foldl (\<lambda>s (c, t). contentChange_w now t c s)
          (st\<lparr>metrics := (metrics st)\<lparr>lastChangeTs := now\<rparr>\<rparr>) cs)"

definition onDidChangeTextDocument_s ::
  "int \<Rightarrow> (change \<times> int) list \<Rightarrow> int \<Rightarrow> int \<Rightarrow> rat \<Rightarrow> ext_state \<Rightarrow> ext_state" where
  "onDidChangeTextDocument_s now cs tu tf u st =
     updateStatus_s tu tf u
       (foldl (\<lambda>s (c, t). contentChange_s t c s)
          (st\<lparr>metrics := (metrics st)\<lparr>lastChangeTs := now\<rparr>\<rparr>) cs)"

text \<open>
  \<^verbatim>\<open>onDidChangeWindowState\<close>: the windowed version updates the status on every focus
  change, the simplified one only when focus is lost.
\<close>

definition onDidChangeWindowState_w ::
  "bool \<Rightarrow> int \<Rightarrow> int \<Rightarrow> int \<Rightarrow> rat \<Rightarrow> ext_state \<Rightarrow> ext_state" where
  "onDidChangeWindowState_w focused now tu tf u st =
     updateStatus_w tu tf u
       (if \<not> focused then st\<lparr>metrics := (metrics st)\<lparr>lastChangeTs := now - 120000\<rparr>\<rparr>
        else st)"

definition onDidChangeWindowState_s ::
  "bool \<Rightarrow> int \<Rightarrow> int \<Rightarrow> int \<Rightarrow> rat \<Rightarrow> ext_state \<Rightarrow> ext_state" where
  "onDidChangeWindowState_s focused now tu tf u st =
     (if \<not> focused
      then updateStatus_s tu tf u (st\<lparr>metrics := (metrics st)\<lparr>lastChangeTs := now - 120000\<rparr>\<rparr>)
      else st)"

text \<open>The commands \<^verbatim>\<open>vibeflow.logAIReject\<close> and \<^verbatim>\<open>vibeflow.toggleAssist\<close>.\<close>

definition logAIReject :: "int \<Rightarrow> ext_state \<Rightarrow> ext_state" where
  "logAIReject t st =
     logEvent t AiReject
       (st\<lparr>metrics := (metrics st)\<lparr>aiRejections := aiRejections (metrics st) + 1\<rparr>\<rparr>)"

definition toggleAssist :: "int \<Rightarrow> ext_state \<Rightarrow> ext_state" where
  "toggleAssist t st =
     logEvent t (AssistToggle (\<not> assistMode st)) (st\<lparr>assistMode := \<not> assistMode st\<rparr>)"

text \<open>The state right after the declarations in \<^verbatim>\<open>activate\<close>, with nothing persisted.\<close>

definition initial :: "int \<Rightarrow> ext_state" where
  "initial t0 =
     \<lparr>metrics = \<lparr>lastChangeTs = t0, totalInsertions = 0, totalDeletions = 0,
                 aiInsertions = 0, aiRejections = 0, undoCount = 0, consecutiveLow = 0\<rparr>,
      activity = [], history = [], events = [], assistMode = False, lastUpdate = 0,
      statusFlow = None, statusColor = None, prompts = []\<rparr>"

section \<open>Properties\<close>

text \<open>
  C1. For every metrics state, activity window, current time and value of the random
  source, the flow score is an integer between 0 and 100 inclusive. It holds of the
  windowed scorer and of the simplified one.
\<close>

theorem computeFlow_in_range:
  "0 \<le> computeFlow_w now u act m \<and> computeFlow_w now u act m \<le> 100 \<and>
   0 \<le> computeFlow_s now u m \<and> computeFlow_s now u m \<le> 100"
  by (simp add: computeFlow_w_def computeFlow_s_def)

subsection \<open>Helper facts\<close>

text \<open>Evaluating the floor of a quotient of two numerals.\<close>

lemma floor_numeral_quotient:
  "\<lfloor>numeral a / numeral b :: rat\<rfloor> = numeral a div numeral b"
  using floor_divide_of_int_eq [where ?'a = rat, of "numeral a" "numeral b"] by simp

lemmas classify_defs = classify_def logEvent_def Let_def

lemmas tick_defs = historyStep_def nudgeStep_def colourStep_def

lemma pushHistory_length: "length h \<le> 20000 \<Longrightarrow> length (pushHistory x h) \<le> 20000"
  by (simp add: pushHistory_def Let_def)

lemma pushHistory_full: "length h = 20000 \<Longrightarrow> pushHistory x h = tl h @ [x]"
  by (cases h) (simp_all add: pushHistory_def Let_def)

lemma history_statusTick_w:
  "history (statusTick_w now flow st) = pushHistory \<lparr>h_ts = now, h_flow = flow\<rparr> (history st)"
  by (simp add: statusTick_w_def tick_defs)

lemma history_statusTick_s:
  "history (statusTick_s now flow st) = pushHistory \<lparr>h_ts = now, h_flow = flow\<rparr> (history st)"
  by (simp add: statusTick_s_def tick_defs)

lemma lastUpdate_statusTick_w: "lastUpdate (statusTick_w now flow st) = lastUpdate st"
  by (simp add: statusTick_w_def tick_defs)

lemma lastUpdate_statusTick_s: "lastUpdate (statusTick_s now flow st) = lastUpdate st"
  by (simp add: statusTick_s_def tick_defs)

lemma statusFlow_statusTick_w: "statusFlow (statusTick_w now flow st) = Some flow"
  by (simp add: statusTick_w_def tick_defs)

lemma statusFlow_statusTick_s: "statusFlow (statusTick_s now flow st) = Some flow"
  by (simp add: statusTick_s_def tick_defs)

text \<open>A low tick that does not reach five only counts.\<close>

lemma statusTick_w_low:
  assumes "flow < 45" and "consecutiveLow (metrics st) + 1 < 5"
  shows "consecutiveLow (metrics (statusTick_w now flow st)) = consecutiveLow (metrics st) + 1 \<and>
         prompts (statusTick_w now flow st) = prompts st \<and>
         assistMode (statusTick_w now flow st) = assistMode st"
  using assms by (simp add: statusTick_w_def tick_defs)

text \<open>A low tick that reaches five with assist mode on shows the prompt and resets.\<close>

lemma statusTick_w_fire:
  assumes "flow < 45" and "consecutiveLow (metrics st) + 1 \<ge> 5" and "assistMode st"
  shows "consecutiveLow (metrics (statusTick_w now flow st)) = 0 \<and>
         prompts (statusTick_w now flow st) = prompts st @ [nudgePrompt]"
  using assms by (simp add: statusTick_w_def tick_defs)

lemma statusTick_w_reset:
  assumes "flow \<ge> 45"
  shows "consecutiveLow (metrics (statusTick_w now flow st)) = 0 \<and>
         prompts (statusTick_w now flow st) = prompts st"
  using assms by (simp add: statusTick_w_def tick_defs)

lemma low_run_w:
  assumes "\<forall>(n, f) \<in> set ticks. f < 45"
    and "consecutiveLow (metrics st) + length ticks < 5"
  shows "consecutiveLow (metrics (foldl (\<lambda>s (n, f). statusTick_w n f s) st ticks))
           = consecutiveLow (metrics st) + length ticks \<and>
         prompts (foldl (\<lambda>s (n, f). statusTick_w n f s) st ticks) = prompts st \<and>
         assistMode (foldl (\<lambda>s (n, f). statusTick_w n f s) st ticks) = assistMode st"
  using assms
proof (induction ticks arbitrary: st)
  case Nil
  then show ?case by simp
next
  case (Cons a ticks)
  obtain n f where a: "a = (n, f)" by (cases a)
  from Cons.prems a have f: "f < 45" and c: "consecutiveLow (metrics st) + 1 < 5" by auto
  note step = statusTick_w_low[OF f c, of n]
  have "consecutiveLow (metrics (statusTick_w n f st)) + length ticks < 5"
    using step Cons.prems(2) by simp
  with Cons.IH[of "statusTick_w n f st"] Cons.prems(1) step a show ?case by simp
qed

text \<open>No term of the windowed raw score reads \<^verbatim>\<open>aiRejections\<close>.\<close>

lemma lastActivity_aiRejections:
  "lastActivity recent (m\<lparr>aiRejections := r\<rparr>) = lastActivity recent m"
  by (simp add: lastActivity_def Let_def)

lemma idleDecay_aiRejections:
  "idleDecay now recent (m\<lparr>aiRejections := r\<rparr>) = idleDecay now recent m"
  by (simp add: idleDecay_def lastActivity_aiRejections)

lemma metricScore_aiRejections: "metricScore (m\<lparr>aiRejections := r\<rparr>) = metricScore m"
  by (simp add: metricScore_def)

lemma rawFlow_aiRejections: "rawFlow now act (m\<lparr>aiRejections := r\<rparr>) = rawFlow now act m"
  by (simp add: rawFlow_def idleDecay_aiRejections metricScore_aiRejections)

subsection \<open>The simplified version differs\<close>

text \<open>
  The simplified scorer gives 70 on the end-to-end input, its jitter ranges over
  \<open>-5..4\<close>, it reads \<^verbatim>\<open>aiRejections\<close>, and its low threshold is 40: a score of 42
  resets the counter there.
\<close>

lemma computeFlow_s_end_to_end:
  "computeFlow_s 1000 (1/2)
     \<lparr>lastChangeTs = 1000, totalInsertions = 100, totalDeletions = 0, aiInsertions = 80,
      aiRejections = 0, undoCount = 5, consecutiveLow = 0\<rparr> = 70"
  by (simp add: computeFlow_s_def raw_s_def jitter_s_def round_def)

lemma jitter_s_range: "jitter_s ` {0..<1} = {-5..4}"
proof (rule set_eqI, rule iffI)
  fix k assume "k \<in> jitter_s ` {0..<1}"
  then obtain u :: rat where u: "0 \<le> u" "u < 1" and k: "k = \<lfloor>u * 10 - 5\<rfloor>"
    by (auto simp: jitter_s_def)
  have "-5 \<le> \<lfloor>u * 10 - 5\<rfloor>" using u by (simp add: le_floor_iff)
  moreover have "\<lfloor>u * 10 - 5\<rfloor> < 5" using u by (simp add: floor_less_iff)
  ultimately show "k \<in> {-5..4}" using k by simp
next
  fix k :: int assume k: "k \<in> {-5..4}"
  let ?u = "(of_int k + 5) / 10 :: rat"
  have e: "?u * 10 - 5 = rat_of_int k" by (simp add: field_simps)
  have "jitter_s ?u = k" unfolding jitter_s_def e by simp
  moreover have "?u \<in> {0..<1}" using k by simp
  ultimately show "k \<in> jitter_s ` {0..<1}" by (metis imageI)
qed

lemma computeFlow_s_reads_aiRejections:
  "computeFlow_s 0 (1/2) ((metrics (initial 0))\<lparr>aiRejections := 1\<rparr>) = 28 \<and>
   computeFlow_s 0 (1/2) (metrics (initial 0)) = 30"
  by (simp add: computeFlow_s_def raw_s_def jitter_s_def round_def initial_def
      floor_numeral_quotient)

lemma statusTick_s_threshold:
  "40 \<le> flow \<Longrightarrow> consecutiveLow (metrics (statusTick_s now flow st)) = 0 \<and>
     prompts (statusTick_s now flow st) = prompts st"
  by (simp add: statusTick_s_def tick_defs)

text \<open>
  The start of the run matters. When the counter already reads 3 (lows counted while
  assist mode was off, say), the prompt comes on the second low tick.
\<close>

lemma statusTick_w_counter_at_three:
  "prompts (foldl (\<lambda>s (n, f). statusTick_w n f s)
     ((initial 0)\<lparr>assistMode := True,
                  metrics := (metrics (initial 0))\<lparr>consecutiveLow := 3\<rparr>\<rparr>)
     [(1000, 10), (2000, 10)]) = [nudgePrompt]"
  by (simp add: statusTick_w_def tick_defs initial_def)

subsection \<open>The classifier\<close>

text \<open>
  C2. For a sub-change that is a pure insertion (\<open>inserted > 0\<close>, \<open>removed = 0\<close>): when
  the inserted text is longer than 40 code units or contains a newline, the classifier
  logs one event of type \<^verbatim>\<open>ai.accept\<close> and adds 1 to \<^verbatim>\<open>aiInsertions\<close>; otherwise it logs
  one event of type \<^verbatim>\<open>insert\<close> and leaves \<^verbatim>\<open>aiInsertions\<close> alone. Both versions agree.
\<close>

theorem classifier_pure_insertion:
  assumes "inserted c > 0" and "removed c = 0"
  shows "events (contentChange_w now t c st) =
           events st @ [\<lparr>e_body = (if inserted c > 40 \<or> includes_newline c
                                   then AiAccept (inserted c) else Insert (inserted c)),
                         e_ts = t\<rparr>] \<and>
         etype (e_body (last (events (contentChange_w now t c st)))) =
           (if inserted c > 40 \<or> includes_newline c then ''ai.accept'' else ''insert'') \<and>
         aiInsertions (metrics (contentChange_w now t c st)) =
           aiInsertions (metrics st) + (if inserted c > 40 \<or> includes_newline c then 1 else 0) \<and>
         events (contentChange_s t c st) =
           events st @ [\<lparr>e_body = (if inserted c > 40 \<or> includes_newline c
                                   then AiAccept (inserted c) else Insert (inserted c)),
                         e_ts = t\<rparr>] \<and>
         etype (e_body (last (events (contentChange_s t c st)))) =
           (if inserted c > 40 \<or> includes_newline c then ''ai.accept'' else ''insert'') \<and>
         aiInsertions (metrics (contentChange_s t c st)) =
           aiInsertions (metrics st) + (if inserted c > 40 \<or> includes_newline c then 1 else 0)"
  using assms by (simp add: contentChange_w_def contentChange_s_def classify_defs)

text \<open>
  The three cases the specification names: 41 letters, 10 letters, and a lone newline.
\<close>

theorem classifier_pure_insertion_witness:
  "inserted \<lparr>change_text = Some (replicate 41 97), rangeLength = Some 0\<rparr> > 0 \<and>
   removed \<lparr>change_text = Some (replicate 41 97), rangeLength = Some 0\<rparr> = 0 \<and>
   etype (e_body (last (events (contentChange_w 1000 1001
     \<lparr>change_text = Some (replicate 41 97), rangeLength = Some 0\<rparr> (initial 0)))))
     = ''ai.accept'' \<and>
   aiInsertions (metrics (contentChange_w 1000 1001
     \<lparr>change_text = Some (replicate 41 97), rangeLength = Some 0\<rparr> (initial 0))) = 1 \<and>
   etype (e_body (last (events (contentChange_w 1000 1001
     \<lparr>change_text = Some (replicate 10 97), rangeLength = Some 0\<rparr> (initial 0)))))
     = ''insert'' \<and>
   aiInsertions (metrics (contentChange_w 1000 1001
     \<lparr>change_text = Some (replicate 10 97), rangeLength = Some 0\<rparr> (initial 0))) = 0 \<and>
   etype (e_body (last (events (contentChange_w 1000 1001
     \<lparr>change_text = Some [newline], rangeLength = None\<rparr> (initial 0)))))
     = ''ai.accept''"
  using
    classifier_pure_insertion
      [of "\<lparr>change_text = Some (replicate 41 97), rangeLength = Some 0\<rparr>" 1000 1001 "initial 0"]
    classifier_pure_insertion
      [of "\<lparr>change_text = Some (replicate 10 97), rangeLength = Some 0\<rparr>" 1000 1001 "initial 0"]
    classifier_pure_insertion
      [of "\<lparr>change_text = Some [newline], rangeLength = None\<rparr>" 1000 1001 "initial 0"]
  by (simp add: inserted_def removed_def includes_newline_def newline_def initial_def)

text \<open>
  C4, as the code has it. For a sub-change that is a pure deletion (\<open>removed > 0\<close>,
  \<open>inserted = 0\<close>) the classifier logs one event of type \<^verbatim>\<open>delete\<close> whose size is the
  number of removed characters, adds that number to \<^verbatim>\<open>totalDeletions\<close>, and adds
  exactly 1 to \<^verbatim>\<open>undoCount\<close>. Both versions agree.
\<close>

theorem classifier_pure_deletion:
  assumes "removed c > 0" and "inserted c = 0"
  shows "events (contentChange_w now t c st) =
           events st @ [\<lparr>e_body = Delete (removed c), e_ts = t\<rparr>] \<and>
         etype (Delete (removed c)) = ''delete'' \<and>
         undoCount (metrics (contentChange_w now t c st)) = undoCount (metrics st) + 1 \<and>
         totalDeletions (metrics (contentChange_w now t c st)) =
           totalDeletions (metrics st) + removed c \<and>
         events (contentChange_s t c st) =
           events st @ [\<lparr>e_body = Delete (removed c), e_ts = t\<rparr>] \<and>
         undoCount (metrics (contentChange_s t c st)) = undoCount (metrics st) + 1 \<and>
         totalDeletions (metrics (contentChange_s t c st)) =
           totalDeletions (metrics st) + removed c"
  using assms by (simp add: contentChange_w_def contentChange_s_def classify_defs)

theorem classifier_pure_deletion_witness:
  "removed \<lparr>change_text = None, rangeLength = Some 5\<rparr> > 0 \<and>
   inserted \<lparr>change_text = None, rangeLength = Some 5\<rparr> = 0 \<and>
   events (contentChange_w 1000 1001 \<lparr>change_text = None, rangeLength = Some 5\<rparr> (initial 0))
     = [\<lparr>e_body = Delete 5, e_ts = 1001\<rparr>] \<and>
   undoCount (metrics
     (contentChange_w 1000 1001 \<lparr>change_text = None, rangeLength = Some 5\<rparr> (initial 0))) = 1 \<and>
   totalDeletions (metrics
     (contentChange_w 1000 1001 \<lparr>change_text = None, rangeLength = Some 5\<rparr> (initial 0))) = 5"
  using classifier_pure_deletion
      [of "\<lparr>change_text = None, rangeLength = Some 5\<rparr>" 1000 1001 "initial 0"]
  by (simp add: inserted_def removed_def initial_def)

text \<open>
  C4 as the specification states it fails: deleting five characters from the initial
  state leaves \<^verbatim>\<open>undoCount\<close> at 1, not at 5.
\<close>

theorem undoCount_not_by_length:
  "removed \<lparr>change_text = None, rangeLength = Some 5\<rparr> > 0 \<and>
   inserted \<lparr>change_text = None, rangeLength = Some 5\<rparr> = 0 \<and>
   undoCount (metrics
     (contentChange_w 1000 1001 \<lparr>change_text = None, rangeLength = Some 5\<rparr> (initial 0)))
   \<noteq> undoCount (metrics (initial 0)) + removed \<lparr>change_text = None, rangeLength = Some 5\<rparr> \<and>
   undoCount (metrics
     (contentChange_s 1001 \<lparr>change_text = None, rangeLength = Some 5\<rparr> (initial 0)))
   \<noteq> undoCount (metrics (initial 0)) + removed \<lparr>change_text = None, rangeLength = Some 5\<rparr>"
  by (simp add: contentChange_w_def contentChange_s_def classify_defs inserted_def
      removed_def initial_def track_activity_def)

text \<open>
  C8, as the code has it. The windowed loop body appends an activity entry exactly
  when \<open>inserted > 0\<close>, which covers pure insertions and replacements; a sub-change
  that inserts nothing appends none. Either way entries older than five minutes are
  then dropped from the front.
\<close>

theorem activity_appended_when_inserted:
  "activity (contentChange_w now t c st) =
     (if inserted c > 0
      then dropWhile (\<lambda>a. a_ts a < now - 300000) (activity st)
             @ [\<lparr>a_ts = now, a_size = inserted c\<rparr>]
      else dropWhile (\<lambda>a. a_ts a < now - 300000) (activity st))"
  by (simp add: contentChange_w_def classify_defs track_activity_def dropWhile_append)

text \<open>
  C8 as the specification states it fails: a replacement of one character by two is
  not a pure insertion, and it appends an activity entry.
\<close>

theorem replace_appends_activity:
  "\<not> (inserted \<lparr>change_text = Some [97, 98], rangeLength = Some 1\<rparr> > 0 \<and>
      removed \<lparr>change_text = Some [97, 98], rangeLength = Some 1\<rparr> = 0) \<and>
   activity (initial 0) = [] \<and>
   activity (contentChange_w 1000 1001
     \<lparr>change_text = Some [97, 98], rangeLength = Some 1\<rparr> (initial 0))
     = [\<lparr>a_ts = 1000, a_size = 2\<rparr>]"
  by (simp add: contentChange_w_def classify_defs inserted_def removed_def initial_def
      track_activity_def includes_newline_def newline_def)

subsection \<open>The score\<close>

text \<open>
  C3, as the code has it. With the jitter at 0, an empty activity window, and metrics
  with \<^verbatim>\<open>totalInsertions\<close> 100, \<^verbatim>\<open>aiInsertions\<close> 80, \<^verbatim>\<open>undoCount\<close> 5 and
  \<^verbatim>\<open>lastChangeTs\<close> equal to the current time, the windowed scorer returns 74: the
  outcome term is 53.5, the keystroke term 0, the idle penalty 0, and the rhythm bonus
  20, because the mean gap of an empty window is taken as 0; 73.5 rounds up to 74.
\<close>

theorem end_to_end_score:
  assumes "jitter_w u = 0"
  shows "metricScore
           (m\<lparr>lastChangeTs := now, totalInsertions := 100, aiInsertions := 80,
              undoCount := 5\<rparr>) = 107 / 2 \<and>
         keystrokeScore now (recent_w now []) = 0 \<and>
         rhythmBonus (recent_w now []) = 20 \<and>
         idleDecay now (recent_w now [])
           (m\<lparr>lastChangeTs := now, totalInsertions := 100, aiInsertions := 80,
              undoCount := 5\<rparr>) = 0 \<and>
         computeFlow_w now u []
           (m\<lparr>lastChangeTs := now, totalInsertions := 100, aiInsertions := 80,
              undoCount := 5\<rparr>) = 74"
  using assms
  by (simp add: computeFlow_w_def rawFlow_def recent_w_def keystrokeScore_def
      rhythmBonus_def avgGap_def gaps_def idleDecay_def lastActivity_def metricScore_def
      round_def)

theorem end_to_end_score_witness:
  "jitter_w (1/2) = 0 \<and>
   computeFlow_w 1000 (1/2) []
     \<lparr>lastChangeTs = 1000, totalInsertions = 100, totalDeletions = 0, aiInsertions = 80,
      aiRejections = 0, undoCount = 5, consecutiveLow = 0\<rparr> = 74"
proof -
  have j: "jitter_w (1/2) = 0" by (simp add: jitter_w_def)
  show ?thesis
    using j end_to_end_score [OF j, where m = "metrics (initial 0)" and now = 1000]
    by (simp add: initial_def)
qed

text \<open>C3 as the specification states it fails: the score on that input is not 54.\<close>

theorem end_to_end_not_54:
  "jitter_w (1/2) = 0 \<and>
   rhythmBonus (recent_w 1000 []) \<noteq> 0 \<and>
   computeFlow_w 1000 (1/2) []
     \<lparr>lastChangeTs = 1000, totalInsertions = 100, totalDeletions = 0, aiInsertions = 80,
      aiRejections = 0, undoCount = 5, consecutiveLow = 0\<rparr> \<noteq> 54"
  by (simp add: computeFlow_w_def rawFlow_def recent_w_def keystrokeScore_def
      rhythmBonus_def avgGap_def gaps_def idleDecay_def lastActivity_def metricScore_def
      jitter_w_def round_def)

text \<open>
  C7. The noise term of the windowed scorer, over every value of the random source in
  \<open>[0, 1)\<close>, takes exactly the values \<open>-3, -2, -1, 0, 1, 2\<close>. It stays within \<open>\<plusminus>3\<close>, but
  it reaches \<open>-3\<close> (at 0) and never \<open>+3\<close>, so it is not symmetric about 0.
\<close>

theorem jitter_w_range:
  "jitter_w 0 = - 3 \<and> jitter_w ` {0..<1} = {- 3..2}"
proof
  show "jitter_w 0 = - 3" by (simp add: jitter_w_def)
  show "jitter_w ` {0..<1} = {- 3..2}"
  proof (rule set_eqI, rule iffI)
    fix k assume "k \<in> jitter_w ` {0..<1}"
    then obtain u :: rat where u: "0 \<le> u" "u < 1" and k: "k = \<lfloor>u * 6 - 3\<rfloor>"
      by (auto simp: jitter_w_def)
    have "- 3 \<le> \<lfloor>u * 6 - 3\<rfloor>" using u by (simp add: le_floor_iff)
    moreover have "\<lfloor>u * 6 - 3\<rfloor> < 3" using u by (simp add: floor_less_iff)
    ultimately show "k \<in> {- 3..2}" using k by simp
  next
    fix k :: int assume k: "k \<in> {- 3..2}"
    let ?u = "(of_int k + 3) / 6 :: rat"
    have e: "?u * 6 - 3 = rat_of_int k" by (simp add: field_simps)
    have "jitter_w ?u = k" unfolding jitter_w_def e by simp
    moreover have "?u \<in> {0..<1}" using k by simp
    ultimately show "k \<in> jitter_w ` {0..<1}" by (metis imageI)
  qed
qed

text \<open>
  C10. The windowed scorer does not read \<^verbatim>\<open>aiRejections\<close>: two metrics states that
  differ only in that counter get the same score, for the same activity window, time
  and random value.
\<close>

theorem computeFlow_w_ignores_aiRejections:
  "computeFlow_w now u act (m\<lparr>aiRejections := r\<rparr>) = computeFlow_w now u act m"
  by (simp add: computeFlow_w_def rawFlow_aiRejections)

subsection \<open>The status update\<close>

text \<open>
  C5, as the code has it. In the windowed version, with assist mode on and the
  counter at 0 when the run starts, five scoring ticks in a row with scores below 45
  behave as follows: after \<open>k < 5\<close> of them the counter reads \<open>k\<close> and no prompt has been
  shown; the fifth shows exactly one prompt and resets the counter to 0. The prompt
  offers the three choices Take Break, Request Hint and Ignore. A tick with a score of
  45 or more resets the counter and shows no prompt.
\<close>

theorem nudge_after_five_low_ticks:
  assumes "assistMode st" and "consecutiveLow (metrics st) = 0"
    and "length ticks = 5" and "\<forall>(n, f) \<in> set ticks. f < 45"
  shows "(\<forall>k<5.
            consecutiveLow
              (metrics (foldl (\<lambda>s (n, f). statusTick_w n f s) st (take k ticks))) = k \<and>
            prompts (foldl (\<lambda>s (n, f). statusTick_w n f s) st (take k ticks)) = prompts st) \<and>
         consecutiveLow (metrics (foldl (\<lambda>s (n, f). statusTick_w n f s) st ticks)) = 0 \<and>
         prompts (foldl (\<lambda>s (n, f). statusTick_w n f s) st ticks)
           = prompts st @ [nudgePrompt] \<and>
         p_items nudgePrompt = [''Take Break'', ''Request Hint'', ''Ignore''] \<and>
         (\<forall>now flow s. flow \<ge> 45 \<longrightarrow>
            consecutiveLow (metrics (statusTick_w now flow s)) = 0 \<and>
            prompts (statusTick_w now flow s) = prompts s)"
proof -
  let ?run = "\<lambda>xs. foldl (\<lambda>s (n, f). statusTick_w n f s) st xs"
  have pre: "consecutiveLow (metrics (?run (take k ticks))) = k \<and>
             prompts (?run (take k ticks)) = prompts st \<and>
             assistMode (?run (take k ticks)) = assistMode st" if "k < 5" for k
  proof -
    have "\<forall>(n, f) \<in> set (take k ticks). f < 45"
      using assms(4) by (auto dest: in_set_takeD)
    moreover have "consecutiveLow (metrics st) + length (take k ticks) < 5"
      using assms(2,3) that by simp
    ultimately show ?thesis
      using low_run_w [of "take k ticks" st] assms(2,3) that by simp
  qed
  obtain n f where nf: "ticks ! 4 = (n, f)" by (cases "ticks ! 4")
  have lst: "ticks = take 4 ticks @ [(n, f)]"
    using take_Suc_conv_app_nth [of 4 ticks] assms(3) nf by simp
  then have "(n, f) \<in> set ticks" by (metis in_set_conv_decomp)
  with assms(4) have f: "f < 45" by auto
  have run5: "?run ticks = statusTick_w n f (?run (take 4 ticks))"
    by (subst lst) simp
  have p4: "consecutiveLow (metrics (?run (take 4 ticks))) = 4"
    "prompts (?run (take 4 ticks)) = prompts st"
    "assistMode (?run (take 4 ticks))"
    using pre [of 4] assms(1) by simp_all
  have fire: "consecutiveLow (metrics (?run ticks)) = 0 \<and>
              prompts (?run ticks) = prompts st @ [nudgePrompt]"
    unfolding run5 using statusTick_w_fire [OF f _ p4(3), of n] p4 by simp
  show ?thesis
    using pre fire statusTick_w_reset by (simp add: nudgePrompt_def)
qed

theorem nudge_after_five_low_ticks_witness:
  "assistMode ((initial 0)\<lparr>assistMode := True\<rparr>) \<and>
   consecutiveLow (metrics ((initial 0)\<lparr>assistMode := True\<rparr>)) = 0 \<and>
   consecutiveLow (metrics (foldl (\<lambda>s (n, f). statusTick_w n f s)
     ((initial 0)\<lparr>assistMode := True\<rparr>)
     (take 4 [(1000, 10), (2000, 20), (3000, 30), (4000, 44), (5000, 0)]))) = 4 \<and>
   prompts (foldl (\<lambda>s (n, f). statusTick_w n f s)
     ((initial 0)\<lparr>assistMode := True\<rparr>)
     (take 4 [(1000, 10), (2000, 20), (3000, 30), (4000, 44), (5000, 0)])) = [] \<and>
   consecutiveLow (metrics (foldl (\<lambda>s (n, f). statusTick_w n f s)
     ((initial 0)\<lparr>assistMode := True\<rparr>)
     [(1000, 10), (2000, 20), (3000, 30), (4000, 44), (5000, 0)])) = 0 \<and>
   prompts (foldl (\<lambda>s (n, f). statusTick_w n f s)
     ((initial 0)\<lparr>assistMode := True\<rparr>)
     [(1000, 10), (2000, 20), (3000, 30), (4000, 44), (5000, 0)]) = [nudgePrompt]"
proof -
  let ?st = "(initial 0)\<lparr>assistMode := True\<rparr>"
  let ?ticks = "[(1000, 10), (2000, 20), (3000, 30), (4000, 44), (5000, 0)] :: (int \<times> int) list"
  have h: "assistMode ?st" "consecutiveLow (metrics ?st) = 0" "length ?ticks = 5"
    "\<forall>(n, f) \<in> set ?ticks. f < 45" "prompts ?st = []"
    by (simp_all add: initial_def)
  from nudge_after_five_low_ticks [OF h(1-4)]
  have all: "\<forall>k<5.
      consecutiveLow (metrics (foldl (\<lambda>s (n, f). statusTick_w n f s) ?st (take k ?ticks))) = k \<and>
      prompts (foldl (\<lambda>s (n, f). statusTick_w n f s) ?st (take k ?ticks)) = prompts ?st"
    and fin: "consecutiveLow (metrics (foldl (\<lambda>s (n, f). statusTick_w n f s) ?st ?ticks)) = 0"
      "prompts (foldl (\<lambda>s (n, f). statusTick_w n f s) ?st ?ticks) = prompts ?st @ [nudgePrompt]"
    by blast+
  from all [rule_format, of 4] have four:
    "consecutiveLow (metrics (foldl (\<lambda>s (n, f). statusTick_w n f s) ?st (take 4 ?ticks))) = 4 \<and>
     prompts (foldl (\<lambda>s (n, f). statusTick_w n f s) ?st (take 4 ?ticks)) = prompts ?st"
    by simp
  show ?thesis using h(1,2,5) four fin by simp
qed

text \<open>
  C5 as the specification states it fails on the simplified version, whose middle
  threshold is 40: with assist mode on and the counter at 0, five scoring ticks with
  score 42, each below 45, show no prompt, since every one of them resets the counter.
\<close>

theorem simplified_five_low_ticks_no_nudge:
  "assistMode ((initial 0)\<lparr>assistMode := True\<rparr>) \<and>
   consecutiveLow (metrics ((initial 0)\<lparr>assistMode := True\<rparr>)) = 0 \<and>
   (42 :: int) < 45 \<and>
   prompts (foldl (\<lambda>s (n, f). statusTick_s n f s) ((initial 0)\<lparr>assistMode := True\<rparr>)
     [(1000, 42), (2000, 42), (3000, 42), (4000, 42), (5000, 42)]) = [] \<and>
   consecutiveLow (metrics (foldl (\<lambda>s (n, f). statusTick_s n f s)
     ((initial 0)\<lparr>assistMode := True\<rparr>)
     [(1000, 42), (2000, 42), (3000, 42), (4000, 42), (5000, 42)])) = 0"
  by (simp add: statusTick_s_def tick_defs initial_def)

text \<open>
  C6. Pushing a sample on a history of 20,000 entries drops the oldest and leaves
  20,000; and a status update never takes a history of at most 20,000 entries beyond
  20,000, whether it scores or is throttled. Both versions agree.
\<close>

theorem history_bounded:
  "(length (history st) = 20000 \<longrightarrow>
      history (statusTick_w now flow st) = tl (history st) @ [\<lparr>h_ts = now, h_flow = flow\<rparr>] \<and>
      length (history (statusTick_w now flow st)) = 20000 \<and>
      history (statusTick_s now flow st) = tl (history st) @ [\<lparr>h_ts = now, h_flow = flow\<rparr>] \<and>
      length (history (statusTick_s now flow st)) = 20000) \<and>
   (length (history st) \<le> 20000 \<longrightarrow>
      length (history (updateStatus_w now tf u st)) \<le> 20000 \<and>
      length (history (updateStatus_s now tf u st)) \<le> 20000)"
proof (intro conjI impI)
  assume full: "length (history st) = 20000"
  show "history (statusTick_w now flow st) = tl (history st) @ [\<lparr>h_ts = now, h_flow = flow\<rparr>]"
    using full by (simp add: history_statusTick_w pushHistory_full)
  then show "length (history (statusTick_w now flow st)) = 20000"
    using full by simp
  show "history (statusTick_s now flow st) = tl (history st) @ [\<lparr>h_ts = now, h_flow = flow\<rparr>]"
    using full by (simp add: history_statusTick_s pushHistory_full)
  then show "length (history (statusTick_s now flow st)) = 20000"
    using full by simp
next
  assume le: "length (history st) \<le> 20000"
  show "length (history (updateStatus_w now tf u st)) \<le> 20000"
    using le by (simp add: updateStatus_w_def history_statusTick_w pushHistory_length)
  show "length (history (updateStatus_s now tf u st)) \<le> 20000"
    using le by (simp add: updateStatus_s_def history_statusTick_s pushHistory_length)
qed

theorem history_bounded_witness:
  "length (history ((initial 0)\<lparr>history := replicate 20000 \<lparr>h_ts = 0, h_flow = 50\<rparr>\<rparr>)) = 20000 \<and>
   history (statusTick_w 7 60 ((initial 0)\<lparr>history := replicate 20000 \<lparr>h_ts = 0, h_flow = 50\<rparr>\<rparr>))
     = tl (replicate 20000 \<lparr>h_ts = 0, h_flow = 50\<rparr>) @ [\<lparr>h_ts = 7, h_flow = 60\<rparr>] \<and>
   length (history (statusTick_w 7 60
     ((initial 0)\<lparr>history := replicate 20000 \<lparr>h_ts = 0, h_flow = 50\<rparr>\<rparr>))) = 20000 \<and>
   length (history (updateStatus_w 7 8 (1/2)
     ((initial 0)\<lparr>history := replicate 20000 \<lparr>h_ts = 0, h_flow = 50\<rparr>\<rparr>))) \<le> 20000"
  using history_bounded
    [where st = "(initial 0)\<lparr>history := replicate 20000 \<lparr>h_ts = 0, h_flow = 50\<rparr>\<rparr>"
       and now = 7 and flow = 60 and tf = 8 and u = "1/2"]
  by simp

text \<open>
  C9, as the code has it. Status updates are coalesced: once an update has scored at
  time \<open>now1\<close>, a second update less than 1000 ms later returns at the throttle without
  evaluating the scorer, so the state and the score on display stay those of the first.
  This holds for every value of the random source, so also with the jitter at 0, and
  in both versions. Nothing is promised of two evaluations of the scorer itself at
  different clock readings.
\<close>

theorem updateStatus_coalesced:
  assumes "\<not> now1 - lastUpdate st < 1000" and "now2 - now1 < 1000"
  shows "updateStatus_w now2 tf2 u2 (updateStatus_w now1 tf1 u1 st)
           = updateStatus_w now1 tf1 u1 st \<and>
         statusFlow (updateStatus_w now1 tf1 u1 st)
           = Some (computeFlow_w tf1 u1 (activity st) (metrics st)) \<and>
         updateStatus_s now2 tf2 u2 (updateStatus_s now1 tf1 u1 st)
           = updateStatus_s now1 tf1 u1 st \<and>
         statusFlow (updateStatus_s now1 tf1 u1 st)
           = Some (computeFlow_s tf1 u1 (metrics st))"
  using assms
  by (simp add: updateStatus_w_def updateStatus_s_def lastUpdate_statusTick_w
      lastUpdate_statusTick_s statusFlow_statusTick_w statusFlow_statusTick_s)

theorem updateStatus_coalesced_witness:
  "\<not> 5000 - lastUpdate (initial 4000) < 1000 \<and> (5500 :: int) - 5000 < 1000 \<and>
   updateStatus_w 5500 5501 (1/2) (updateStatus_w 5000 5001 (1/2) (initial 4000))
     = updateStatus_w 5000 5001 (1/2) (initial 4000) \<and>
   statusFlow (updateStatus_w 5500 5501 (1/2) (updateStatus_w 5000 5001 (1/2) (initial 4000)))
     = statusFlow (updateStatus_w 5000 5001 (1/2) (initial 4000))"
proof -
  have h: "\<not> 5000 - lastUpdate (initial 4000) < 1000" "(5500 :: int) - 5000 < 1000"
    by (simp_all add: initial_def)
  show ?thesis
    using h updateStatus_coalesced [OF h, of 5501 "1/2" 5001 "1/2"] by simp
qed

text \<open>
  C9 as the specification states it fails: the scorer reads the clock in milliseconds,
  so with the jitter at 0 and the same metrics and activity, two evaluations one
  millisecond apart, inside the same second, give different scores. The windowed
  scorer gives 49 at 1500 ms and 48 at 1501 ms; the simplified one gives 30 at 15000 ms
  and 29 at 15001 ms.
\<close>

theorem scorer_differs_within_a_second:
  "jitter_w (1/2) = 0 \<and> jitter_s (1/2) = 0 \<and>
   computeFlow_w 1500 (1/2) [] (metrics (initial 0)) = 49 \<and>
   computeFlow_w 1501 (1/2) [] (metrics (initial 0)) = 48 \<and>
   computeFlow_s 15000 (1/2) (metrics (initial 0)) = 30 \<and>
   computeFlow_s 15001 (1/2) (metrics (initial 0)) = 29"
  by (simp add: computeFlow_w_def rawFlow_def recent_w_def keystrokeScore_def
      rhythmBonus_def avgGap_def gaps_def idleDecay_def lastActivity_def metricScore_def
      jitter_w_def computeFlow_s_def raw_s_def jitter_s_def round_def initial_def
      floor_numeral_quotient)

end
